theory Spec2Isabelle
  imports Complex_Main
begin

section \<open>Arithmetic of the program\<close>

text \<open>
  The program computes on C++ \<^verbatim>\<open>double\<close> values.  They are embedded as the real numbers
  they denote: every arithmetic operation is exact, and the special values of IEEE
  arithmetic (NaN, the infinities) and its rounding error have no counterpart.  The one
  place where the source divides by a value that can be zero (\<^verbatim>\<open>ystep / yScale\<close> in
  \<^verbatim>\<open>printDField\<close>) is written out below.  The \<^verbatim>\<open>int\<close> precision is an integer.
\<close>

text \<open>\<^verbatim>\<open>std::round\<close>: the nearest integer, halfway cases away from zero.\<close>

definition std_round :: "real \<Rightarrow> real" where
  "std_round v = (if 0 \<le> v then of_int \<lfloor>v + 1 / 2\<rfloor> else of_int \<lceil>v - 1 / 2\<rceil>)"

text \<open>\<^verbatim>\<open>std::pow(10.0, precision)\<close> for an \<^verbatim>\<open>int\<close> precision.\<close>

definition pow10 :: "int \<Rightarrow> real" where
  "pow10 precision = (if 0 \<le> precision then 10 ^ nat precision else 1 / 10 ^ nat (- precision))"

definition roundToPrecision :: "real \<Rightarrow> int \<Rightarrow> real" where
  "roundToPrecision v precision =
     (let scale = pow10 precision in std_round (v * scale) / scale)"

section \<open>The expression evaluator\<close>

text \<open>
  The formula is evaluated by the tinyexpr library, which is not part of the sources.  The
  program observes a \<^verbatim>\<open>te_parser\<close> in two ways only: \<^verbatim>\<open>evaluate\<close> returns a
  \<^verbatim>\<open>double\<close>, and \<^verbatim>\<open>success()\<close> tells whether that evaluation succeeded.  Both are
  taken as parameters, as functions of the formula and of the values bound to the
  variables \<^verbatim>\<open>x\<close> and \<^verbatim>\<open>y\<close> (the evaluator is deterministic).  Where an
  evaluation fails the library returns NaN; \<^verbatim>\<open>slope\<close> and the start of
  \<^verbatim>\<open>eulersMethod\<close> test \<^verbatim>\<open>success()\<close> and throw, the loop of \<^verbatim>\<open>eulersMethod\<close> does
  not test it and goes on with the value returned.
\<close>

record te_parser =
  evaluate :: "string \<Rightarrow> real \<Rightarrow> real \<Rightarrow> real"
  success :: "string \<Rightarrow> real \<Rightarrow> real \<Rightarrow> bool"

text \<open>Every failure of the program is a \<^verbatim>\<open>std::runtime_error\<close> carrying a message.\<close>

datatype error = runtime_error string

text \<open>
  Evaluators to run the program on: a formula that is a constant, and a formula that does
  not parse.
\<close>

definition te_constant :: "real \<Rightarrow> te_parser" where
  "te_constant c = \<lparr>evaluate = (\<lambda>fn x y. c), success = (\<lambda>fn x y. True)\<rparr>"

definition te_invalid :: te_parser where
  "te_invalid = \<lparr>evaluate = (\<lambda>fn x y. 0), success = (\<lambda>fn x y. False)\<rparr>"

text \<open>
  An evaluator whose formula evaluates only at the points with \<open>x < c\<close>, as
  \<^verbatim>\<open>1/(c-x)\<close> does for a parser that reports a division by zero.
\<close>

definition te_left_of :: "real \<Rightarrow> te_parser" where
  "te_left_of c = \<lparr>evaluate = (\<lambda>fn x y. 0), success = (\<lambda>fn x y. x < c)\<rparr>"

text \<open>An evaluator that computes Newton's law of cooling, \<^verbatim>\<open>0.3*(300-y)\<close>.\<close>

definition te_cooling :: te_parser where
  "te_cooling = \<lparr>evaluate = (\<lambda>fn x y. 3 / 10 * (300 - y)), success = (\<lambda>fn x y. True)\<rparr>"

section \<open>The Euler stepper (table mode)\<close>

text \<open>
  \<^verbatim>\<open>stepValues\<close> holds one row of the table: the fields \<^verbatim>\<open>x\<close>, \<^verbatim>\<open>y\<close>, \<^verbatim>\<open>yp\<close>
  and \<^verbatim>\<open>dy\<close>.  The source stores the four numbers as text in fixed notation; the
  embedding keeps the numbers that are formatted.
\<close>

record stepValues =
  sv_x :: real
  sv_y :: real
  sv_yp :: real
  sv_dy :: real

text \<open>
  The loop \<^verbatim>\<open>while (!(x > end))\<close> of \<^verbatim>\<open>eulersMethod\<close>; \<open>xn\<close> is the variable
  \<^verbatim>\<open>x\<close> of the source.  Nothing bounds the number of iterations, so the loop is a
  partial function: \<open>None\<close> is the run that never leaves the loop.
\<close>

partial_function (option) euler_loop ::
  "te_parser \<Rightarrow> string \<Rightarrow> real \<Rightarrow> real \<Rightarrow> int \<Rightarrow> real \<Rightarrow> real \<Rightarrow> stepValues list
     \<Rightarrow> stepValues list option" where
  "euler_loop tep fn step end precision xn y values =
     (if \<not> (xn > end) then
        (let yp = roundToPrecision (evaluate tep fn xn y) precision;
             dy = roundToPrecision (yp * step) precision
         in euler_loop tep fn step end precision
              (roundToPrecision (xn + step) precision) (roundToPrecision (y + dy) precision)
              (values @ [\<lparr>sv_x = xn, sv_y = y, sv_yp = yp, sv_dy = dy\<rparr>]))
      else Some values)"

text \<open>
  \<^verbatim>\<open>eulersMethod\<close> up to the point where the rows are handed to one of the four printers:
  the result is the vector \<^verbatim>\<open>values\<close>, or the error thrown before the loop.
\<close>

definition eulersMethod ::
  "te_parser \<Rightarrow> string \<Rightarrow> real \<Rightarrow> real \<Rightarrow> real \<Rightarrow> real \<Rightarrow> int
     \<Rightarrow> (error + stepValues list) option" where
  "eulersMethod tep fn step0 x0 y0 end precision =
     (let x = roundToPrecision x0 precision;
          y = roundToPrecision y0 precision;
          step = roundToPrecision step0 precision
      in if \<not> success tep fn x y
         then Some (Inl (runtime_error (''error parsing expr'' @ fn)))
         else map_option Inr (euler_loop tep fn step end precision x y []))"

subsection \<open>The reference iteration of the specification\<close>

text \<open>
  The specification describes the stepper as an iteration on the state \<open>(x, y)\<close>: each
  iteration computes \<open>yp = round (f x y)\<close> and \<open>dy = round (yp * step)\<close>, emits the
  record \<open>{x, y, yp, dy}\<close> and advances to \<open>(round (x + step), round (y + dy))\<close>.
  \<open>ref_state f step p s n\<close> is the state after \<open>n\<close> iterations from \<open>s\<close>.
\<close>

definition ref_record :: "(real \<Rightarrow> real \<Rightarrow> real) \<Rightarrow> real \<Rightarrow> int \<Rightarrow> real \<times> real \<Rightarrow> stepValues" where
  "ref_record f step p s =
     (let yp = roundToPrecision (f (fst s) (snd s)) p;
          dy = roundToPrecision (yp * step) p
      in \<lparr>sv_x = fst s, sv_y = snd s, sv_yp = yp, sv_dy = dy\<rparr>)"

definition ref_advance :: "(real \<Rightarrow> real \<Rightarrow> real) \<Rightarrow> real \<Rightarrow> int \<Rightarrow> real \<times> real \<Rightarrow> real \<times> real" where
  "ref_advance f step p s =
     (roundToPrecision (fst s + step) p,
      roundToPrecision (snd s + sv_dy (ref_record f step p s)) p)"

definition ref_state :: "(real \<Rightarrow> real \<Rightarrow> real) \<Rightarrow> real \<Rightarrow> int \<Rightarrow> real \<times> real \<Rightarrow> nat \<Rightarrow> real \<times> real" where
  "ref_state f step p s n = (ref_advance f step p ^^ n) s"

section \<open>The direction field\<close>

text \<open>
  \<^verbatim>\<open>slope\<close> builds a parser of its own, evaluates the formula at \<open>(x, y)\<close> and throws
  when the parser reports a failure.
\<close>

definition slope :: "te_parser \<Rightarrow> string \<Rightarrow> real \<Rightarrow> real \<Rightarrow> error + real" where
  "slope tep fn x y =
     (if \<not> success tep fn x y then Inl (runtime_error (''error parsing expr'' @ fn))
      else Inr (evaluate tep fn x y))"

text \<open>
  \<^verbatim>\<open>printDField\<close> collects a TikZ picture in a local buffer and writes the buffer to the
  standard output as its last statement.  The buffer is embedded as the list of the
  commands it holds, each with the numbers that the source formats into it:
  the opening lines, the two axes, one \<^verbatim>\<open>\draw[blue!70]\<close> per field segment, and for the
  curve the text \<^verbatim>\<open>\draw[red, thick]\<close>, \<^verbatim>\<open>plot coordinates {\<close>, one coordinate
  per point, the closing \<^verbatim>\<open>};\<close>, then the closing lines.
\<close>

record segment =
  xL :: real
  yL :: real
  xR :: real
  yR :: real

datatype tikz =
    PictureBegin
  | Axis real real real real
  | FieldDraw segment
  | CurveDraw
  | PlotOpen
  | PlotPoint real real
  | PlotClose
  | PictureEnd

text \<open>The literal \<^verbatim>\<open>1e-12\<close> that the source adds to the bounds of its loops.\<close>

definition tol :: real where
  "tol = 1 / 10 ^ 12"

definition segLen :: real where
  "segLen = 2"

definition yScale :: "real \<Rightarrow> real \<Rightarrow> real \<Rightarrow> real \<Rightarrow> real" where
  "yScale x0 y0 xe ye = (let xrange = xe - x0; yrange = ye - y0 in xrange / yrange)"

definition yTop :: "real \<Rightarrow> real \<Rightarrow> real \<Rightarrow> real" where
  "yTop x0 y0 xe = (let xrange = xe - x0 in y0 + xrange)"

text \<open>
  \<^verbatim>\<open>ySampleStep = ystep / yScale\<close>.  The scale is zero when \<^verbatim>\<open>xe == x0\<close>, a domain
  that the checks of \<^verbatim>\<open>printDField\<close> let through; dividing the positive \<^verbatim>\<open>ystep\<close> by
  zero gives the \<^verbatim>\<open>double\<close> value plus infinity, which is \<open>None\<close> here.
\<close>

definition ySampleStep :: "real \<Rightarrow> real \<Rightarrow> real option" where
  "ySampleStep ystep yscale = (if yscale = 0 then None else Some (ystep / yscale))"

text \<open>The lambda \<^verbatim>\<open>mapY\<close>, with the two variables it captures as parameters.\<close>

definition mapY :: "real \<Rightarrow> real \<Rightarrow> real \<Rightarrow> real" where
  "mapY y0 yscale y = y0 + (y - y0) * yscale"

text \<open>The segment drawn at \<open>(x, y)\<close> for the slope \<open>m\<close>: the body of the inner loop.\<close>

definition field_segment :: "real \<Rightarrow> real \<Rightarrow> real \<Rightarrow> real \<Rightarrow> real \<Rightarrow> segment" where
  "field_segment y0 yscale x y m =
     (let mScaled = m * yscale;
          dx = segLen / sqrt (1 + mScaled * mScaled);
          dy = mScaled * dx;
          yCenter = mapY y0 yscale y
      in \<lparr>xL = x - dx / 2, yL = yCenter - dy / 2, xR = x + dx / 2, yR = yCenter + dy / 2\<rparr>)"

text \<open>
  The inner loop \<^verbatim>\<open>for (y = y0; y <= ye + 1e-12; y += ySampleStep)\<close>, run at the
  value \<open>xn\<close> of the outer variable \<^verbatim>\<open>x\<close>.  When the step is plus infinity, so is
  \<open>y\<close> after the first pass, and the loop ends.
\<close>

partial_function (option) field_y_loop ::
  "te_parser \<Rightarrow> string \<Rightarrow> real \<Rightarrow> real \<Rightarrow> real \<Rightarrow> real option \<Rightarrow> real \<Rightarrow> real \<Rightarrow> tikz list
     \<Rightarrow> (error + tikz list) option" where
  "field_y_loop tep expr y0 ye yscale ysample xn y buffer =
     (if y \<le> ye + tol then
        (case slope tep expr xn y of
           Inl err \<Rightarrow> Some (Inl err)
         | Inr m \<Rightarrow>
             (case ysample of
                None \<Rightarrow> Some (Inr (buffer @ [FieldDraw (field_segment y0 yscale xn y m)]))
              | Some s \<Rightarrow>
                  field_y_loop tep expr y0 ye yscale ysample xn (y + s)
                    (buffer @ [FieldDraw (field_segment y0 yscale xn y m)])))
      else Some (Inr buffer))"

text \<open>
  The outer loop \<^verbatim>\<open>for (x = x0; x <= xe + 1e-12; x += xstep)\<close>; \<open>xn\<close> is its variable
  \<^verbatim>\<open>x\<close>.
\<close>

partial_function (option) field_x_loop ::
  "te_parser \<Rightarrow> string \<Rightarrow> real \<Rightarrow> real \<Rightarrow> real \<Rightarrow> real \<Rightarrow> real option \<Rightarrow> real \<Rightarrow> real \<Rightarrow> tikz list
     \<Rightarrow> (error + tikz list) option" where
  "field_x_loop tep expr y0 xe ye yscale ysample xstep xn buffer =
     (if xn \<le> xe + tol then
        (case field_y_loop tep expr y0 ye yscale ysample xn y0 buffer of
           None \<Rightarrow> None
         | Some (Inl err) \<Rightarrow> Some (Inl err)
         | Some (Inr buffer') \<Rightarrow>
             field_x_loop tep expr y0 xe ye yscale ysample xstep (xn + xstep) buffer')
      else Some (Inr buffer))"

text \<open>
  The loop of the curve,
  \<^verbatim>\<open>for (; x <= xe + 1e-12; x = roundToPrecision(x + step, precision))\<close>, with its
  \<^verbatim>\<open>break\<close>; \<open>xn\<close> is its variable \<^verbatim>\<open>x\<close>.  It returns the flag \<^verbatim>\<open>first\<close> with the
  buffer.
\<close>

partial_function (option) curve_loop ::
  "te_parser \<Rightarrow> string \<Rightarrow> real \<Rightarrow> real \<Rightarrow> real \<Rightarrow> real \<Rightarrow> real \<Rightarrow> int \<Rightarrow> real \<Rightarrow> real \<Rightarrow> bool
     \<Rightarrow> tikz list \<Rightarrow> (error + bool \<times> tikz list) option" where
  "curve_loop tep expr y0 xe ye yscale step precision xn y first buffer =
     (if xn \<le> xe + tol then
        (if y < y0 - tol \<or> y > ye + tol then Some (Inr (first, buffer))
         else
           (let buffer1 = (if first then buffer @ [PlotOpen] else buffer);
                buffer2 = buffer1 @ [PlotPoint xn (mapY y0 yscale y)]
            in case slope tep expr xn y of
                 Inl err \<Rightarrow> Some (Inl err)
               | Inr sl \<Rightarrow>
                   (let m = roundToPrecision sl precision;
                        dy = roundToPrecision (m * step) precision
                    in curve_loop tep expr y0 xe ye yscale step precision
                         (roundToPrecision (xn + step) precision)
                         (roundToPrecision (y + dy) precision) False buffer2)))
      else Some (Inr (first, buffer)))"

text \<open>
  \<^verbatim>\<open>printDField\<close>.  \<open>Some (Inr buffer)\<close> is the run that writes the buffer to the
  standard output, \<open>Some (Inl err)\<close> the run that throws, having written nothing, and
  \<open>None\<close> the run that stays in a loop.
\<close>

definition printDField ::
  "te_parser \<Rightarrow> string \<Rightarrow> real \<Rightarrow> real \<Rightarrow> real \<Rightarrow> real \<Rightarrow> real \<Rightarrow> real \<Rightarrow> int \<Rightarrow> bool
     \<Rightarrow> real \<Rightarrow> real \<Rightarrow> real \<Rightarrow> (error + tikz list) option" where
  "printDField tep expr x0 y0 xe ye xstep ystep precision plotCurve curveStep curveX0 curveY0 =
     (if xstep \<le> 0 \<or> ystep \<le> 0 then
        Some (Inl (runtime_error ''direction field steps must be positive''))
      else if plotCurve \<and> curveStep \<le> 0 then
        Some (Inl (runtime_error ''curve step must be positive''))
      else if xe < x0 \<or> ye < y0 then
        Some (Inl (runtime_error ''direction field range must be increasing''))
      else if ye = y0 then
        Some (Inl (runtime_error ''direction field y range must be non-zero''))
      else
        (let yscale = yScale x0 y0 xe ye;
             ysample = ySampleStep ystep yscale;
             buffer = [PictureBegin, Axis x0 y0 xe y0, Axis x0 y0 x0 (yTop x0 y0 xe)]
         in case field_x_loop tep expr y0 xe ye yscale ysample xstep x0 buffer of
              None \<Rightarrow> None
            | Some (Inl err) \<Rightarrow> Some (Inl err)
            | Some (Inr buffer1) \<Rightarrow>
                if plotCurve then
                  (let x = roundToPrecision curveX0 precision;
                       y = roundToPrecision curveY0 precision;
                       step = roundToPrecision curveStep precision
                   in case curve_loop tep expr y0 xe ye yscale step precision x y True
                             (buffer1 @ [CurveDraw]) of
                        None \<Rightarrow> None
                      | Some (Inl err) \<Rightarrow> Some (Inl err)
                      | Some (Inr (first, buffer2)) \<Rightarrow>
                          Some (Inr ((if \<not> first then buffer2 @ [PlotClose] else buffer2)
                                     @ [PictureEnd])))
                else Some (Inr (buffer1 @ [PictureEnd]))))"

subsection \<open>Reading a picture\<close>



subsection \<open>The grid of the specification\<close>





subsection \<open>The curve of the specification\<close>



section \<open>Properties of the precision rounder\<close>

lemma pow10_pos: "0 < pow10 p"
  by (simp add: pow10_def)

lemma std_round_of_int: "std_round (of_int k) = of_int k"
proof (cases "0 \<le> k")
  case True
  have "\<lfloor>of_int k + (1 / 2 :: real)\<rfloor> = k" by linarith
  with True show ?thesis by (simp add: std_round_def)
next
  case False
  have "\<lceil>of_int k - (1 / 2 :: real)\<rceil> = k" by linarith
  with False show ?thesis by (simp add: std_round_def)
qed

lemma std_round_int: "\<exists>k :: int. std_round v = of_int k"
  by (auto simp: std_round_def)

lemma roundToPrecision_scaled: "\<exists>k :: int. roundToPrecision v p = of_int k / pow10 p"
  using std_round_int [of "v * pow10 p"] by (auto simp: roundToPrecision_def Let_def)

lemma roundToPrecision_fixed: "roundToPrecision (of_int k / pow10 p) p = of_int k / pow10 p"
  using pow10_pos [of p] by (simp add: roundToPrecision_def Let_def std_round_of_int)



section \<open>Properties of the Euler stepper\<close>

lemma roundToPrecision_grid_add:
  "roundToPrecision (roundToPrecision a p + real n * roundToPrecision s p) p =
   roundToPrecision a p + real n * roundToPrecision s p"
proof -
  obtain k :: int where k: "roundToPrecision a p = of_int k / pow10 p"
    using roundToPrecision_scaled by blast
  obtain l :: int where l: "roundToPrecision s p = of_int l / pow10 p"
    using roundToPrecision_scaled by blast
  have "roundToPrecision a p + real n * roundToPrecision s p = of_int (k + int n * l) / pow10 p"
    by (simp add: k l add_divide_distrib)
  then show ?thesis by (simp only: roundToPrecision_fixed)
qed

lemma ref_state_0: "ref_state f step p s 0 = s"
  by (simp add: ref_state_def)

lemma ref_state_Suc: "ref_state f step p s (Suc n) = ref_advance f step p (ref_state f step p s n)"
  by (simp add: ref_state_def)

lemma ref_state_shift: "ref_state f step p (ref_advance f step p s) n = ref_state f step p s (Suc n)"
  by (simp add: ref_state_def funpow_swap1)

lemma fst_ref_state:
  "fst (ref_state f (roundToPrecision s p) p (roundToPrecision a p, y) n) =
   roundToPrecision a p + real n * roundToPrecision s p"
proof (induction n)
  case 0
  show ?case by (simp add: ref_state_0)
next
  case (Suc n)
  have "fst (ref_state f (roundToPrecision s p) p (roundToPrecision a p, y) (Suc n)) =
        roundToPrecision (roundToPrecision a p + real n * roundToPrecision s p + roundToPrecision s p) p"
    by (simp add: ref_state_Suc ref_advance_def Suc.IH)
  also have "roundToPrecision a p + real n * roundToPrecision s p + roundToPrecision s p =
        roundToPrecision a p + real (Suc n) * roundToPrecision s p"
    by (simp add: algebra_simps)
  finally show ?case by (simp only: roundToPrecision_grid_add)
qed

lemma euler_loop_stop: "x > end \<Longrightarrow> euler_loop tep fn step end p x y vs = Some vs"
  by (subst euler_loop.simps) simp

lemma euler_loop_run:
  "x \<le> end \<Longrightarrow>
   euler_loop tep fn step end p x y vs =
   euler_loop tep fn step end p (fst (ref_advance (evaluate tep fn) step p (x, y)))
     (snd (ref_advance (evaluate tep fn) step p (x, y)))
     (vs @ [ref_record (evaluate tep fn) step p (x, y)])"
  by (subst euler_loop.simps) (simp add: ref_advance_def ref_record_def Let_def)

lemma euler_loop_returns:
  "(\<forall>n<N. fst (ref_state (evaluate tep fn) step p (x, y) n) \<le> end) \<Longrightarrow>
   fst (ref_state (evaluate tep fn) step p (x, y) N) > end \<Longrightarrow>
   euler_loop tep fn step end p x y vs =
     Some (vs @ map (\<lambda>n. ref_record (evaluate tep fn) step p (ref_state (evaluate tep fn) step p (x, y) n)) [0..<N])"
proof (induction N arbitrary: x y vs)
  case 0
  then show ?case by (simp add: ref_state_0 euler_loop_stop)
next
  case (Suc N)
  let ?f = "evaluate tep fn"
  let ?s = "ref_advance ?f step p (x, y)"
  from Suc.prems(1) have le: "x \<le> end" by (auto simp: ref_state_0 dest: spec [of _ 0])
  have a: "\<forall>n<N. fst (ref_state ?f step p (fst ?s, snd ?s) n) \<le> end"
    using Suc.prems(1) by (auto simp: ref_state_shift)
  have b: "fst (ref_state ?f step p (fst ?s, snd ?s) N) > end"
    using Suc.prems(2) by (simp add: ref_state_shift)
  have m: "map (\<lambda>n. ref_record ?f step p (ref_state ?f step p (x, y) n)) [0..<Suc N] =
        ref_record ?f step p (x, y) # map (\<lambda>n. ref_record ?f step p (ref_state ?f step p (fst ?s, snd ?s) n)) [0..<N]"
    by (simp only: upt_conv_Cons [of 0 "Suc N"] map_Suc_upt [symmetric]) (simp add: ref_state_shift ref_state_0)
  show ?case
    by (simp only: euler_loop_run [OF le] Suc.IH [OF a b] m) simp
qed








section \<open>Claims about the Euler stepper\<close>






text \<open>
  C5.  For an evaluator that computes \<^verbatim>\<open>0.3*(300-y)\<close>, the run with step \<open>0.1\<close>,
  \<open>x0 = 0\<close>, \<open>y0 = 350\<close>, \<open>end = 10\<close> and precision \<open>6\<close> returns a table whose first
  record is \<open>(0, 350, - 15, - 1.5)\<close> and whose second record has \<open>x = 0.1\<close> and
  \<open>y = 348.5\<close>; the table has 101 records.
\<close>

theorem eulersMethod_cooling_scenario:
  assumes ev: "\<And>x y. evaluate tep ''0.3*(300-y)'' x y = 3 / 10 * (300 - y)"
    and ok: "success tep ''0.3*(300-y)'' 0 350"
  shows "\<exists>r1 rest. eulersMethod tep ''0.3*(300-y)'' (1 / 10) 0 350 10 6 =
            Some (Inr (\<lparr>sv_x = 0, sv_y = 350, sv_yp = - 15, sv_dy = - (3 / 2)\<rparr> # r1 # rest)) \<and>
          sv_x r1 = 1 / 10 \<and> sv_y r1 = 697 / 2 \<and> length rest = 99"
proof -
  let ?fn = "''0.3*(300-y)''"
  let ?f = "evaluate tep ?fn"
  let ?h = "roundToPrecision (1 / 10) 6"
  let ?s = "ref_state ?f ?h 6 (roundToPrecision 0 6, roundToPrecision 350 6)"
  let ?rec = "\<lambda>n. ref_record ?f ?h 6 (?s n)"
  have r: "roundToPrecision 0 6 = 0" "roundToPrecision 350 6 = 350" "roundToPrecision (1 / 10) 6 = 1 / 10"
    by (simp_all add: roundToPrecision_def pow10_def std_round_def)
  have below: "\<forall>n<101. fst (?s n) \<le> 10"
    by (simp only: fst_ref_state) (simp add: r)
  have above: "fst (?s 101) > 10"
    by (simp only: fst_ref_state) (simp add: r)
  have run: "eulersMethod tep ?fn (1 / 10) 0 350 10 6 = Some (Inr (map ?rec [0..<101]))"
    using ok euler_loop_returns [OF below above, of "[]"]
    by (simp add: eulersMethod_def Let_def r)
  have u1: "[0..<101] = 0 # [Suc 0..<101]" by (rule upt_conv_Cons) simp
  have u2: "[Suc 0..<101] = Suc 0 # [Suc (Suc 0)..<101]" by (rule upt_conv_Cons) simp
  have split: "map ?rec [0..<101] = ?rec 0 # ?rec (Suc 0) # map ?rec [Suc (Suc 0)..<101]"
    by (simp only: u1 u2 list.map)
  have s0: "?s 0 = (0, 350)"
    by (simp add: ref_state_0 r)
  have rec0: "?rec 0 = \<lparr>sv_x = 0, sv_y = 350, sv_yp = - 15, sv_dy = - (3 / 2)\<rparr>"
    unfolding s0 by (simp add: ref_record_def ev roundToPrecision_def pow10_def std_round_def)
  have s1: "?s (Suc 0) = (1 / 10, 697 / 2)"
    unfolding ref_state_Suc s0
    by (simp add: ref_advance_def ref_record_def ev roundToPrecision_def pow10_def std_round_def)
  have rec1: "sv_x (?rec (Suc 0)) = 1 / 10" "sv_y (?rec (Suc 0)) = 697 / 2"
    unfolding s1 by (simp_all add: ref_record_def Let_def)
  have len: "length (map ?rec [Suc (Suc 0)..<101]) = 99"
    by (simp only: length_map length_upt)
  have "eulersMethod tep ?fn (1 / 10) 0 350 10 6 =
      Some (Inr (\<lparr>sv_x = 0, sv_y = 350, sv_yp = - 15, sv_dy = - (3 / 2)\<rparr> # ?rec (Suc 0) #
        map ?rec [Suc (Suc 0)..<101]))"
    by (simp only: run split rec0)
  with rec1 len show ?thesis by blast
qed

text \<open>
  C5 at the evaluator \<open>te_cooling\<close>.
\<close>

theorem eulersMethod_cooling_scenario_witness:
  "(\<forall>x y. evaluate te_cooling ''0.3*(300-y)'' x y = 3 / 10 * (300 - y)) \<and>
   success te_cooling ''0.3*(300-y)'' 0 350 \<and>
   (\<exists>r1 rest. eulersMethod te_cooling ''0.3*(300-y)'' (1 / 10) 0 350 10 6 =
            Some (Inr (\<lparr>sv_x = 0, sv_y = 350, sv_yp = - 15, sv_dy = - (3 / 2)\<rparr> # r1 # rest)) \<and>
          sv_x r1 = 1 / 10 \<and> sv_y r1 = 697 / 2 \<and> length rest = 99)"
proof -
  have ev: "\<And>x y. evaluate te_cooling ''0.3*(300-y)'' x y = 3 / 10 * (300 - y)"
    by (simp add: te_cooling_def)
  have ok: "success te_cooling ''0.3*(300-y)'' 0 350"
    by (simp add: te_cooling_def)
  from eulersMethod_cooling_scenario [OF ev ok] ev ok show ?thesis by blast
qed




section \<open>Properties of the field sampler\<close>


























lemmas field_run_simps = printDField_def yScale_def ySampleStep_def yTop_def field_x_loop.simps
  field_y_loop.simps curve_loop.simps slope_def field_segment_def segLen_def mapY_def tol_def
  roundToPrecision_def pow10_def std_round_def te_constant_def te_invalid_def te_left_of_def







section \<open>Claims about the direction field\<close>

text \<open>
  C2 (as amended).  A domain with \<open>xe < x0\<close> or \<open>ye \<le> y0\<close> makes \<^verbatim>\<open>printDField\<close>
  fail before any sampling, and nothing is written.  The checks of the steps come first:
  when the grid steps (and the curve step, if a curve is asked for) are positive, the
  failure is the one of the range, \<^verbatim>\<open>direction field range must be increasing\<close> or
  \<^verbatim>\<open>direction field y range must be non-zero\<close>.
\<close>

theorem printDField_rejects_domain:
  "(xe < x0 \<or> ye \<le> y0 \<longrightarrow>
      (\<exists>msg. printDField tep expr x0 y0 xe ye xstep ystep p plotCurve curveStep curveX0 curveY0 =
                Some (Inl (runtime_error msg)))) \<and>
   ((xe < x0 \<or> ye \<le> y0) \<and> 0 < xstep \<and> 0 < ystep \<and> (plotCurve \<longrightarrow> 0 < curveStep) \<longrightarrow>
      printDField tep expr x0 y0 xe ye xstep ystep p plotCurve curveStep curveX0 curveY0 =
        Some (Inl (runtime_error
          (if xe < x0 \<or> ye < y0 then ''direction field range must be increasing''
           else ''direction field y range must be non-zero''))))"
  by (auto simp: printDField_def)

text \<open>
  The amended C2 at the domain with \<open>x0 = 1\<close>, \<open>xe = 0\<close>, and at the domain with
  \<open>y0 = ye = 2\<close>.
\<close>

theorem printDField_rejects_domain_witness:
  "(0::real) < 1 \<and>
   printDField (te_constant 1) ''1'' 1 0 0 1 1 1 0 False 1 0 0 =
     Some (Inl (runtime_error ''direction field range must be increasing'')) \<and>
   (2::real) \<le> 2 \<and>
   printDField (te_constant 1) ''1'' 0 2 1 2 1 1 0 False 1 0 0 =
     Some (Inl (runtime_error ''direction field y range must be non-zero''))"
  using printDField_rejects_domain [of 0 1 1 0 "te_constant 1" "''1''" 1 1 0 False 1 0 0]
    printDField_rejects_domain [of 1 0 2 2 "te_constant 1" "''1''" 1 1 0 False 1 0 0]
  by simp

text \<open>
  C2 as stated fails: the domain with \<open>x0 = xe = 0\<close> (so \<open>xe \<le> x0\<close>) and \<open>y0 = 0\<close>,
  \<open>ye = 1\<close> is accepted, and one field segment is drawn.
\<close>

theorem printDField_zero_width_domain:
  "printDField (te_constant 1) ''1'' 0 0 0 1 1 1 0 False 1 0 0 =
     Some (Inr [PictureBegin, Axis 0 0 0 0, Axis 0 0 0 0,
                FieldDraw \<lparr>xL = - 1, yL = 0, xR = 1, yR = 0\<rparr>, PictureEnd])"
  by (simp add: field_run_simps)










end
